theory Spec2Isabelle
  imports Main
begin

section \<open>JavaScript values\<close>

text \<open>
  Request bodies and socket payloads are decoded JSON, so a field may hold any value or be
  absent. The primitive values are modelled; \<open>JUndefined\<close> is an absent field (JSON.stringify
  drops such a field when the record is written, and reading the record back gives
  undefined again). Objects and arrays in the position of an id or of a message content
  are outside the model. \<open>JNum n\<close> stands for the number \<open>n\<close> where a double holds it
  exactly (magnitude up to \<open>2 ^ 53\<close>); numbers with a fraction and larger ones are outside
  the model too.
\<close>

datatype jsval = JUndefined | JNull | JBool bool | JNum int | JStr string

text \<open>The truthiness test of \<open>!x\<close>, \<open>if (x)\<close> and \<open>x || y\<close>.\<close>

fun truthy :: "jsval \<Rightarrow> bool" where
  "truthy JUndefined = False"
| "truthy JNull = False"
| "truthy (JBool b) = b"
| "truthy (JNum n) = (n \<noteq> 0)"
| "truthy (JStr s) = (s \<noteq> [])"

definition js_or :: "jsval \<Rightarrow> jsval \<Rightarrow> jsval" where
  "js_or a b = (if truthy a then a else b)"

text \<open>
  The conversion a template literal applies to an interpolated value. An integer is printed
  in plain decimal digits, which is what JavaScript does below \<open>10 ^ 21\<close>, so on all the
  numbers the model covers; beyond that JavaScript prints an exponent and \<open>toString\<close> is
  not its conversion.
\<close>

definition digit :: "nat \<Rightarrow> char" where
  "digit n = ''0123456789'' ! (n mod 10)"

function string_of_nat :: "nat \<Rightarrow> string" where
  "string_of_nat n = (if n < 10 then [digit n] else string_of_nat (n div 10) @ [digit n])"
  by pat_completeness auto
termination
  by (relation "measure (\<lambda>n. n)") auto

declare string_of_nat.simps [simp del]

fun toString :: "jsval \<Rightarrow> string" where
  "toString JUndefined = ''undefined''"
| "toString JNull = ''null''"
| "toString (JBool b) = (if b then ''true'' else ''false'')"
| "toString (JNum n) = (if n < 0 then ''-'' @ string_of_nat (nat (- n)) else string_of_nat (nat n))"
| "toString (JStr s) = s"

text \<open>A location is the one field that is normally an object: \<open>location || {}\<close>.\<close>

datatype jsobj = JPrim jsval | JObject "(string \<times> jsval) list"

fun truthy_obj :: "jsobj \<Rightarrow> bool" where
  "truthy_obj (JPrim v) = truthy v"
| "truthy_obj (JObject kvs) = True"

section \<open>Records of the collections\<close>

text \<open>
  Each record carries the fields the modelled handlers read or write; a field of the
  source's record that no modelled handler touches is left out. Field names are prefixed
  where two records of the source use the same name. Timestamps (\<open>new Date()\<close>) are
  natural numbers, and the values of \<open>generateId()\<close> and of the clock are parameters of
  the handler that asks for them.
\<close>

record profile =
  p_name :: string
  p_avatar :: string

record user =
  u_id :: string
  username :: string
  email :: string
  password :: string
  u_profile :: profile

record group =
  g_id :: string
  g_name :: string
  members :: "string list"
  memberCount :: int
  messageCount :: int

record reactions =
  thumbsUp :: int
  thumbsDown :: int
  heart :: int
  laugh :: int

record message =
  m_id :: string
  m_groupId :: jsval
  m_userId :: jsval
  m_content :: jsval
  messageType :: string
  m_reactions :: reactions
  isEdited :: bool
  m_createdAt :: nat

datatype alert_status = Active | Resolved | Cancelled

record alert =
  a_id :: string
  a_userId :: string
  a_status :: alert_status
  a_location :: jsobj
  a_message :: jsval
  a_severity :: jsval
  a_createdAt :: nat
  resolvedAt :: "nat option"
  cancelledAt :: "nat option"

record direct_message =
  d_id :: string
  sender :: string
  recipient :: jsval
  d_content :: jsval
  isRead :: bool
  d_createdAt :: nat

text \<open>The user as the register route returns it: the record without the password.\<close>

record user_response =
  r_id :: string
  r_username :: string
  r_email :: string
  r_profile :: profile

text \<open>The \<open>user\<close> object attached to a message in a response: id, username, name, avatar.\<close>

record user_info =
  i_id :: string
  i_username :: string
  i_name :: string
  i_avatar :: string

section \<open>Responses, events and the server state\<close>

datatype payload =
    NoPayload
  | MessageData message "user_info option"
  | AlertData alert
  | DirectData direct_message
  | UserData string user_response

text \<open>\<open>res.status(c).json({success, message, ...})\<close>; \<open>res.json\<close> alone is status 200.\<close>

datatype response = Response (res_status: nat) (res_success: bool) (res_message: string) (res_data: payload)

text \<open>
  \<open>io.emit\<close> reaches every connection, \<open>io.to(r).emit\<close> the room \<open>r\<close> (every socket is in
  the room named by its own id), \<open>socket.emit\<close> the one socket.
\<close>

datatype target = ToAll | ToRoom string | ToSocket string

datatype js_error = TypeError

text \<open>
  Events by name, with their fields. In \<open>NewMessage\<close> the second argument is the \<open>user\<close>
  field of the message: \<open>None\<close> when the field is absent (the socket handler), \<open>Some None\<close>
  when it is null and \<open>Some (Some i)\<close> when it is filled in (the HTTP route).
\<close>

datatype event =
    NewMessage message "user_info option option"
  | UserStatus jsval string nat
  | EmergencyBroadcast jsval "string option" jsobj jsval nat "string option"
  | NewDirectMessage jsval "string option" jsval nat
  | ErrorEvent js_error

datatype data_file = Users | Phrases | Groups | Messages | Emergency | DirectMessages

datatype log_entry = ReadError data_file | WriteError data_file

text \<open>
  The state of the process and of its data directory. A collection file holds a list of
  records, or cannot be read or parsed (\<open>None\<close>); \<open>writable f\<close> says whether
  \<open>fs.writeFileSync\<close> on \<open>f\<close> succeeds. \<open>errlog\<close> is what \<open>console.error\<close> printed,
  \<open>connectedUsers\<close> the Map from user id to socket id in insertion order,
  \<open>socket_userId\<close> the \<open>userId\<close> property of each socket object, and \<open>emitted\<close> the
  events sent so far with their targets.
\<close>

record state =
  users :: "user list option"
  groups :: "group list option"
  messages :: "message list option"
  emergency :: "alert list option"
  directMessages :: "direct_message list option"
  writable :: "data_file \<Rightarrow> bool"
  errlog :: "log_entry list"
  connectedUsers :: "(jsval \<times> string) list"
  socket_userId :: "string \<Rightarrow> jsval"
  emitted :: "(target \<times> event) list"

section \<open>Data functions\<close>

text \<open>\<open>readData\<close>: a failed read is logged and gives the empty list.\<close>

definition readData :: "data_file \<Rightarrow> (state \<Rightarrow> 'a list option) \<Rightarrow> state \<Rightarrow> 'a list \<times> state" where
  "readData f sel s =
     (case sel s of
        Some xs \<Rightarrow> (xs, s)
      | None \<Rightarrow> ([], s\<lparr>errlog := errlog s @ [ReadError f]\<rparr>))"

text \<open>\<open>writeData\<close>: replaces the whole collection and returns true, or logs and returns false.\<close>

definition writeData ::
  "data_file \<Rightarrow> ('a list option \<Rightarrow> state \<Rightarrow> state) \<Rightarrow> 'a list \<Rightarrow> state \<Rightarrow> bool \<times> state" where
  "writeData f put xs s =
     (if writable s f then (True, put (Some xs) s)
      else (False, s\<lparr>errlog := errlog s @ [WriteError f]\<rparr>))"

definition put_users :: "user list option \<Rightarrow> state \<Rightarrow> state" where
  "put_users v s = s\<lparr>users := v\<rparr>"

definition put_groups :: "group list option \<Rightarrow> state \<Rightarrow> state" where
  "put_groups v s = s\<lparr>groups := v\<rparr>"

definition put_messages :: "message list option \<Rightarrow> state \<Rightarrow> state" where
  "put_messages v s = s\<lparr>messages := v\<rparr>"

definition put_emergency :: "alert list option \<Rightarrow> state \<Rightarrow> state" where
  "put_emergency v s = s\<lparr>emergency := v\<rparr>"

definition put_directMessages :: "direct_message list option \<Rightarrow> state \<Rightarrow> state" where
  "put_directMessages v s = s\<lparr>directMessages := v\<rparr>"

text \<open>\<open>Array.prototype.findIndex\<close>, with \<open>None\<close> for -1.\<close>

fun findIndex :: "('a \<Rightarrow> bool) \<Rightarrow> 'a list \<Rightarrow> nat option" where
  "findIndex P [] = None"
| "findIndex P (x # xs) =
     (if P x then Some 0 else (case findIndex P xs of None \<Rightarrow> None | Some i \<Rightarrow> Some (Suc i)))"

definition emit :: "target \<Rightarrow> event \<Rightarrow> state \<Rightarrow> state" where
  "emit t e s = s\<lparr>emitted := emitted s @ [(t, e)]\<rparr>"

section \<open>The Map of connected users\<close>

text \<open>
  A JavaScript Map as the list of its entries in insertion order: \<open>set\<close> on a present key
  replaces the value in place, on a new key it adds the entry at the end.
\<close>

fun Map_set :: "('k \<times> 'v) list \<Rightarrow> 'k \<Rightarrow> 'v \<Rightarrow> ('k \<times> 'v) list" where
  "Map_set [] k v = [(k, v)]"
| "Map_set ((k', v') # m) k v =
     (if k' = k then (k, v) # m else (k', v') # Map_set m k v)"

fun Map_get :: "('k \<times> 'v) list \<Rightarrow> 'k \<Rightarrow> 'v option" where
  "Map_get [] k = None"
| "Map_get ((k', v') # m) k = (if k' = k then Some v' else Map_get m k)"

definition Map_delete :: "('k \<times> 'v) list \<Rightarrow> 'k \<Rightarrow> ('k \<times> 'v) list" where
  "Map_delete m k = filter (\<lambda>e. fst e \<noteq> k) m"

definition Map_size :: "('k \<times> 'v) list \<Rightarrow> nat" where
  "Map_size m = length m"

section \<open>Authentication middleware\<close>

text \<open>
  The outcome of reading and verifying the bearer token is a parameter: no token, a token
  that \<open>jwt.verify\<close> rejects, or the \<open>userId\<close> of a verified token. The middleware then
  looks the user up and hands the record to the route as \<open>req.user\<close>.
\<close>

datatype credentials = NoToken | InvalidToken | Token string

definition authMiddleware :: "credentials \<Rightarrow> state \<Rightarrow> (response + user) \<times> state" where
  "authMiddleware cred s =
     (case cred of
        NoToken \<Rightarrow> (Inl (Response 401 False ''No authentication token provided'' NoPayload), s)
      | InvalidToken \<Rightarrow> (Inl (Response 401 False ''Invalid token'' NoPayload), s)
      | Token uid \<Rightarrow>
          (case readData Users users s of
             (us, s1) \<Rightarrow>
               (case find (\<lambda>u. u_id u = uid) us of
                  None \<Rightarrow> (Inl (Response 401 False ''User not found'' NoPayload), s1)
                | Some u \<Rightarrow> (Inr u, s1))))"

definition with_auth ::
  "credentials \<Rightarrow> (user \<Rightarrow> state \<Rightarrow> response \<times> state) \<Rightarrow> state \<Rightarrow> response \<times> state" where
  "with_auth cred route s =
     (case authMiddleware cred s of
        (Inl r, s1) \<Rightarrow> (r, s1)
      | (Inr u, s1) \<Rightarrow> route u s1)"

section \<open>HTTP routes\<close>

text \<open>
  Each route is the body of the handler after the middleware: its first argument is
  \<open>req.user\<close>. The records are well typed, so the \<open>catch\<close> branch that answers 500 is
  never taken and has no counterpart here.
\<close>

definition user_info_of :: "user \<Rightarrow> user_info" where
  "user_info_of u =
     \<lparr>i_id = u_id u, i_username = username u, i_name = p_name (u_profile u),
      i_avatar = p_avatar (u_profile u)\<rparr>"

definition zero_reactions :: reactions where
  "zero_reactions = \<lparr>thumbsUp = 0, thumbsDown = 0, heart = 0, laugh = 0\<rparr>"

text \<open>POST /api/community/groups/:id/messages\<close>

definition post_group_messages ::
  "user \<Rightarrow> string \<Rightarrow> jsval \<Rightarrow> string \<Rightarrow> nat \<Rightarrow> state \<Rightarrow> response \<times> state" where
  "post_group_messages req_user gid body_content newId now s =
     (if \<not> truthy body_content
      then (Response 400 False ''Message content is required'' NoPayload, s)
      else
        (case readData Groups groups s of
           (gs, s1) \<Rightarrow>
             (case find (\<lambda>g. g_id g = gid) gs of
                None \<Rightarrow> (Response 404 False ''Group not found'' NoPayload, s1)
              | Some grp \<Rightarrow>
                  if u_id req_user \<notin> set (members grp)
                  then (Response 403 False ''You are not a member of this group'' NoPayload, s1)
                  else
                    (case readData Messages messages s1 of
                       (ms, s2) \<Rightarrow>
                         let newMessage =
                               \<lparr>m_id = newId, m_groupId = JStr gid, m_userId = JStr (u_id req_user),
                                m_content = body_content, messageType = ''text'',
                                m_reactions = zero_reactions, isEdited = False,
                                m_createdAt = now\<rparr>;
                             s3 = snd (writeData Messages put_messages (ms @ [newMessage]) s2);
                             s4 = (case findIndex (\<lambda>g. g_id g = gid) gs of
                                     None \<Rightarrow> s3
                                   | Some i \<Rightarrow>
                                       snd (writeData Groups put_groups
                                              (gs[i := (gs ! i)\<lparr>messageCount := messageCount (gs ! i) + 1\<rparr>])
                                              s3))
                         in (case readData Users users s4 of
                               (us, s5) \<Rightarrow>
                                 let usr = map_option user_info_of
                                             (find (\<lambda>u. u_id u = u_id req_user) us)
                                 in (Response 201 True ''Message sent'' (MessageData newMessage usr),
                                     emit (ToRoom (''group-'' @ gid))
                                       (NewMessage newMessage (Some usr)) s5))))))"

text \<open>POST /api/emergency/alert\<close>

definition post_emergency_alert ::
  "user \<Rightarrow> jsval \<Rightarrow> jsobj \<Rightarrow> jsval \<Rightarrow> string \<Rightarrow> nat \<Rightarrow> nat \<Rightarrow> state \<Rightarrow> response \<times> state" where
  "post_emergency_alert req_user msg location severity newId t_created t_emitted s =
     (case readData Emergency emergency s of
        (al, s1) \<Rightarrow>
          let newAlert =
                \<lparr>a_id = newId, a_userId = u_id req_user, a_status = Active,
                 a_location = (if truthy_obj location then location else JObject []),
                 a_message = js_or msg (JStr []),
                 a_severity = js_or severity (JStr ''high''),
                 a_createdAt = t_created, resolvedAt = None, cancelledAt = None\<rparr>;
              s2 = snd (writeData Emergency put_emergency (al @ [newAlert]) s1);
              userName = (if p_name (u_profile req_user) \<noteq> [] then p_name (u_profile req_user)
                          else username req_user)
          in (Response 201 True ''Emergency alert activated'' (AlertData newAlert),
              emit ToAll
                (EmergencyBroadcast (JStr (u_id req_user)) (Some userName) location msg t_emitted
                   (Some newId)) s2))"

text \<open>POST /api/emergency/alerts/:id/resolve\<close>

definition post_resolve :: "user \<Rightarrow> string \<Rightarrow> nat \<Rightarrow> state \<Rightarrow> response \<times> state" where
  "post_resolve req_user aid now s =
     (case readData Emergency emergency s of
        (al, s1) \<Rightarrow>
          (case findIndex (\<lambda>a. a_id a = aid) al of
             None \<Rightarrow> (Response 404 False ''Alert not found'' NoPayload, s1)
           | Some i \<Rightarrow>
               let al' = al[i := (al ! i)\<lparr>a_status := Resolved, resolvedAt := Some now\<rparr>];
                   s2 = snd (writeData Emergency put_emergency al' s1)
               in (Response 200 True ''Emergency alert resolved'' (AlertData (al' ! i)), s2)))"

text \<open>POST /api/emergency/alerts/:id/cancel\<close>

definition post_cancel :: "user \<Rightarrow> string \<Rightarrow> nat \<Rightarrow> state \<Rightarrow> response \<times> state" where
  "post_cancel req_user aid now s =
     (case readData Emergency emergency s of
        (al, s1) \<Rightarrow>
          (case findIndex (\<lambda>a. a_id a = aid) al of
             None \<Rightarrow> (Response 404 False ''Alert not found'' NoPayload, s1)
           | Some i \<Rightarrow>
               if a_userId (al ! i) \<noteq> u_id req_user
               then (Response 404 False ''Alert not found'' NoPayload, s1)
               else
                 let al' = al[i := (al ! i)\<lparr>a_status := Cancelled, cancelledAt := Some now\<rparr>];
                     s2 = snd (writeData Emergency put_emergency al' s1)
                 in (Response 200 True ''Emergency alert cancelled'' (AlertData (al' ! i)), s2)))"

text \<open>
  POST /api/messages/send. The test \<open>!recipientId || !content\<close> is written as the two tests
  the short-circuit evaluation makes, in its order.
\<close>

definition post_messages_send ::
  "user \<Rightarrow> jsval \<Rightarrow> jsval \<Rightarrow> string \<Rightarrow> nat \<Rightarrow> nat \<Rightarrow> state \<Rightarrow> response \<times> state" where
  "post_messages_send req_user body_recipientId body_content newId t_created t_emitted s =
     (if \<not> truthy body_recipientId
      then (Response 400 False ''Recipient and message content are required'' NoPayload, s)
      else if \<not> truthy body_content
      then (Response 400 False ''Recipient and message content are required'' NoPayload, s)
      else
        (case readData DirectMessages directMessages s of
           (dms, s1) \<Rightarrow>
             let newMessage =
                   \<lparr>d_id = newId, sender = u_id req_user, recipient = body_recipientId,
                    d_content = body_content, isRead = False, d_createdAt = t_created\<rparr>;
                 s2 = snd (writeData DirectMessages put_directMessages (dms @ [newMessage]) s1);
                 s3 = (case Map_get (connectedUsers s2) body_recipientId of
                         None \<Rightarrow> s2
                       | Some recipientSocket \<Rightarrow>
                           if recipientSocket \<noteq> []
                           then emit (ToRoom recipientSocket)
                                  (NewDirectMessage (JStr (u_id req_user))
                                     (Some (p_name (u_profile req_user))) body_content t_emitted) s2
                           else s2)
             in (Response 201 True ''Message sent'' (DirectData newMessage), s3)))"

text \<open>
  POST /api/users/register. The handler is \<open>async\<close>: it runs up to its first \<open>await\<close>
  (the test of the body, the load of the users, the search for the email or the username),
  is suspended while bcrypt makes the salt and the hash, and goes on after the second
  \<open>await\<close> (the new record, \<open>push\<close> onto the array it loaded, the save, the token, the
  response). Between the two awaits it does nothing, so it is two steps, \<open>register_load\<close>
  and \<open>register_save\<close>, and whatever else the server handles in the meantime runs on the
  state between them. \<open>register_load\<close> ends with the response, when it answers at once, or
  with what the handler holds while it waits: the three fields and its copy of the users.
  The fields of the body are strings (an absent one and the empty one are both falsy and
  get the same 400); the hash, the id and the token are parameters of the second step.
\<close>

datatype pending_register =
  PendingRegister (pr_username: string) (pr_email: string) (pr_password: string)
    (pr_users: "user list")

definition register_load ::
  "string \<Rightarrow> string \<Rightarrow> string \<Rightarrow> state \<Rightarrow> (response + pending_register) \<times> state" where
  "register_load body_username body_email body_password s =
     (if body_username = []
      then (Inl (Response 400 False ''Username, email, and password are required'' NoPayload), s)
      else if body_email = []
      then (Inl (Response 400 False ''Username, email, and password are required'' NoPayload), s)
      else if body_password = []
      then (Inl (Response 400 False ''Username, email, and password are required'' NoPayload), s)
      else
        (case readData Users users s of
           (us, s1) \<Rightarrow>
             (case find (\<lambda>u. email u = body_email \<or> username u = body_username) us of
                Some u \<Rightarrow>
                  (Inl (Response 400 False ''Email or username already exists'' NoPayload), s1)
              | None \<Rightarrow>
                  (Inr (PendingRegister body_username body_email body_password us), s1))))"

definition register_save ::
  "pending_register \<Rightarrow> string \<Rightarrow> string \<Rightarrow> string \<Rightarrow> state \<Rightarrow> response \<times> state" where
  "register_save p hashedPassword newId token s =
     (let newUser =
            \<lparr>u_id = newId, username = pr_username p, email = pr_email p,
             password = hashedPassword,
             u_profile = \<lparr>p_name = pr_username p, p_avatar = []\<rparr>\<rparr>;
          s1 = snd (writeData Users put_users (pr_users p @ [newUser]) s);
          userResponse =
            \<lparr>r_id = u_id newUser, r_username = username newUser, r_email = email newUser,
             r_profile = u_profile newUser\<rparr>
      in (Response 201 True ''User registered successfully'' (UserData token userResponse), s1))"

section \<open>Socket.IO handlers\<close>

text \<open>
  A handler takes the id of the socket it is registered on. A payload is \<open>None\<close> when the
  client sent none (or null): destructuring it, or reading a property of it, throws a
  TypeError. \<open>send-group-message\<close> catches it and answers with an \<open>error\<close> event; in the
  handlers without a \<open>try\<close> the exception leaves the handler (\<open>Inl TypeError\<close>).
\<close>

record group_message_data =
  groupId :: jsval
  content :: jsval

record emergency_data =
  e_location :: jsobj
  e_message :: jsval

record direct_data =
  recipientId :: jsval
  dd_content :: jsval

text \<open>\<open>io.on('connection')\<close>: a new socket object, with no \<open>userId\<close> property yet.\<close>

definition on_connection :: "string \<Rightarrow> state \<Rightarrow> state" where
  "on_connection sid s = s\<lparr>socket_userId := (socket_userId s)(sid := JUndefined)\<rparr>"

definition on_user_join :: "string \<Rightarrow> jsval \<Rightarrow> state \<Rightarrow> state" where
  "on_user_join sid userId s =
     (let s1 = s\<lparr>connectedUsers := Map_set (connectedUsers s) userId sid\<rparr>;
          s2 = s1\<lparr>socket_userId := (socket_userId s1)(sid := userId)\<rparr>
      in emit ToAll (UserStatus userId ''online'' (Map_size (connectedUsers s2))) s2)"

definition on_send_group_message ::
  "string \<Rightarrow> group_message_data option \<Rightarrow> string \<Rightarrow> nat \<Rightarrow> state \<Rightarrow> state" where
  "on_send_group_message sid data newId now s =
     (case data of
        None \<Rightarrow> emit (ToSocket sid) (ErrorEvent TypeError) s
      | Some d \<Rightarrow>
          (case readData Messages messages s of
             (ms, s1) \<Rightarrow>
               let newMessage =
                     \<lparr>m_id = newId, m_groupId = groupId d, m_userId = socket_userId s1 sid,
                      m_content = content d, messageType = ''text'',
                      m_reactions = zero_reactions, isEdited = False, m_createdAt = now\<rparr>;
                   s2 = snd (writeData Messages put_messages (ms @ [newMessage]) s1)
               in emit (ToRoom (''group-'' @ toString (groupId d))) (NewMessage newMessage None) s2))"

definition on_emergency_alert ::
  "string \<Rightarrow> emergency_data option \<Rightarrow> nat \<Rightarrow> state \<Rightarrow> js_error + state" where
  "on_emergency_alert sid data now s =
     (case data of
        None \<Rightarrow> Inl TypeError
      | Some d \<Rightarrow>
          Inr (emit ToAll
                 (EmergencyBroadcast (socket_userId s sid) None (e_location d) (e_message d) now None)
                 s))"

definition on_direct_message ::
  "string \<Rightarrow> direct_data option \<Rightarrow> nat \<Rightarrow> state \<Rightarrow> js_error + state" where
  "on_direct_message sid data now s =
     (case data of
        None \<Rightarrow> Inl TypeError
      | Some d \<Rightarrow>
          (case Map_get (connectedUsers s) (recipientId d) of
             None \<Rightarrow> Inr s
           | Some recipientSocket \<Rightarrow>
               if recipientSocket \<noteq> []
               then Inr (emit (ToRoom recipientSocket)
                           (NewDirectMessage (socket_userId s sid) None (dd_content d) now) s)
               else Inr s))"

definition on_disconnect :: "string \<Rightarrow> state \<Rightarrow> state" where
  "on_disconnect sid s =
     (if truthy (socket_userId s sid)
      then
        (let s1 = s\<lparr>connectedUsers := Map_delete (connectedUsers s) (socket_userId s sid)\<rparr>
         in emit ToAll (UserStatus (socket_userId s sid) ''offline'' (Map_size (connectedUsers s1))) s1)
      else s)"

section \<open>Sequences of requests on emergency alerts\<close>

text \<open>
  The two routes that change the status of an alert, as requests that arrive one after the
  other; each carries \<open>req.user\<close>, the \<open>:id\<close> of the path and the time of the call.
\<close>

datatype alert_request = ResolveAlert user string nat | CancelAlert user string nat

fun handle_alert_request :: "alert_request \<Rightarrow> state \<Rightarrow> state" where
  "handle_alert_request (ResolveAlert u aid now) s = snd (post_resolve u aid now s)"
| "handle_alert_request (CancelAlert u aid now) s = snd (post_cancel u aid now s)"

definition run_alert_requests :: "alert_request list \<Rightarrow> state \<Rightarrow> state" where
  "run_alert_requests rs s = fold handle_alert_request rs s"

definition terminal :: "alert \<Rightarrow> bool" where
  "terminal a = (a_status a = Resolved \<or> a_status a = Cancelled)"

section \<open>Appends to one collection, one after the other and overlapping\<close>

text \<open>
  A list of \<open>send-group-message\<close> events (socket, payload, id, time). Each handler call
  is one synchronous callback, so the events are handled one after the other, in any order
  the list gives.
\<close>

type_synonym group_message_event = "string \<times> group_message_data option \<times> string \<times> nat"

definition handle_group_message_event :: "group_message_event \<Rightarrow> state \<Rightarrow> state" where
  "handle_group_message_event e s =
     (case e of (sid, d, newId, now) \<Rightarrow> on_send_group_message sid d newId now s)"

definition run_group_message_events :: "group_message_event list \<Rightarrow> state \<Rightarrow> state" where
  "run_group_message_events es s = fold handle_group_message_event es s"

text \<open>
  A registration request with what its second step is given. Two requests overlap when
  the second is loaded while the first waits for its hash: load A, load B, save A, save B.
  A request that was answered by its first step has no second step.
\<close>

record register_request =
  rq_username :: string
  rq_email :: string
  rq_password :: string
  rq_hash :: string
  rq_id :: string
  rq_token :: string

definition load_request :: "register_request \<Rightarrow> state \<Rightarrow> (response + pending_register) \<times> state" where
  "load_request q s = register_load (rq_username q) (rq_email q) (rq_password q) s"

definition save_request ::
  "response + pending_register \<Rightarrow> register_request \<Rightarrow> state \<Rightarrow> response \<times> state" where
  "save_request x q s =
     (case x of
        Inl r \<Rightarrow> (r, s)
      | Inr p \<Rightarrow> register_save p (rq_hash q) (rq_id q) (rq_token q) s)"

definition register_one_by_one ::
  "register_request \<Rightarrow> register_request \<Rightarrow> state \<Rightarrow> response \<times> response \<times> state" where
  "register_one_by_one a b s =
     (case load_request a s of
        (xa, s1) \<Rightarrow>
          (case save_request xa a s1 of
             (ra, s2) \<Rightarrow>
               (case load_request b s2 of
                  (xb, s3) \<Rightarrow>
                    (case save_request xb b s3 of
                       (rb, s4) \<Rightarrow> (ra, rb, s4)))))"

definition register_overlapping ::
  "register_request \<Rightarrow> register_request \<Rightarrow> state \<Rightarrow> response \<times> response \<times> state" where
  "register_overlapping a b s =
     (case load_request a s of
        (xa, s1) \<Rightarrow>
          (case load_request b s1 of
             (xb, s2) \<Rightarrow>
               (case save_request xa a s2 of
                  (ra, s3) \<Rightarrow>
                    (case save_request xb b s3 of
                       (rb, s4) \<Rightarrow> (ra, rb, s4)))))"

definition user_of_request :: "register_request \<Rightarrow> user" where
  "user_of_request q =
     \<lparr>u_id = rq_id q, username = rq_username q, email = rq_email q, password = rq_hash q,
      u_profile = \<lparr>p_name = rq_username q, p_avatar = []\<rparr>\<rparr>"

section \<open>Example data\<close>

definition ex_user1 :: user where
  "ex_user1 = \<lparr>u_id = ''u1'', username = ''ann'', email = ''ann@x.org'', password = ''h1'',
     u_profile = \<lparr>p_name = ''Ann'', p_avatar = []\<rparr>\<rparr>"

definition ex_user2 :: user where
  "ex_user2 = \<lparr>u_id = ''u2'', username = ''bob'', email = ''bob@x.org'', password = ''h2'',
     u_profile = \<lparr>p_name = ''Bob'', p_avatar = []\<rparr>\<rparr>"

definition ex_group :: group where
  "ex_group = \<lparr>g_id = ''g1'', g_name = ''G'', members = [''u1''], memberCount = 1, messageCount = 0\<rparr>"

definition ex_alert :: alert where
  "ex_alert = \<lparr>a_id = ''a1'', a_userId = ''u1'', a_status = Resolved, a_location = JObject [],
     a_message = JStr ''help'', a_severity = JStr ''high'', a_createdAt = 1,
     resolvedAt = Some 2, cancelledAt = None\<rparr>"

text \<open>
  The server right after start, with two registered users, one group whose only member is
  the first user, and empty collections otherwise; every file can be read and written.
\<close>

definition ex_state :: state where
  "ex_state = \<lparr>users = Some [ex_user1, ex_user2], groups = Some [ex_group], messages = Some [],
     emergency = Some [], directMessages = Some [], writable = (\<lambda>f. True), errlog = [],
     connectedUsers = [], socket_userId = (\<lambda>c. JUndefined), emitted = []\<rparr>"

text \<open>The same server with one alert of the first user, already resolved.\<close>

definition ex_state_alert :: state where
  "ex_state_alert = ex_state\<lparr>emergency := Some [ex_alert]\<rparr>"

text \<open>The server with the resolved alert when the disk takes no write.\<close>

definition ex_state_readonly :: state where
  "ex_state_readonly = ex_state_alert\<lparr>writable := (\<lambda>f. False)\<rparr>"

text \<open>Two registration requests of new users with different names and addresses.\<close>

definition ex_request_a :: register_request where
  "ex_request_a = \<lparr>rq_username = ''carl'', rq_email = ''carl@x.org'', rq_password = ''pw1'',
     rq_hash = ''h3'', rq_id = ''u3'', rq_token = ''t3''\<rparr>"

definition ex_request_b :: register_request where
  "ex_request_b = \<lparr>rq_username = ''dora'', rq_email = ''dora@x.org'', rq_password = ''pw2'',
     rq_hash = ''h4'', rq_id = ''u4'', rq_token = ''t4''\<rparr>"

section \<open>Lemmas on the helpers\<close>

lemma findIndex_SomeD: "findIndex P xs = Some i \<Longrightarrow> i < length xs \<and> P (xs ! i)"
proof (induction xs arbitrary: i)
  case Nil
  then show ?case by simp
next
  case (Cons x xs)
  then show ?case by (auto split: if_splits option.splits)
qed

lemma find_findIndex: "find P xs = Some x \<Longrightarrow> \<exists>i. findIndex P xs = Some i \<and> xs ! i = x"
  by (induction xs) (auto split: if_splits)

lemma findIndex_None_iff: "findIndex P xs = None \<longleftrightarrow> find P xs = None"
  by (induction xs) (auto split: option.splits)

lemma Map_get_set_same: "Map_get (Map_set m k v) k = Some v"
  by (induction m) auto

lemma Map_get_set_other: "k' \<noteq> k \<Longrightarrow> Map_get (Map_set m k v) k' = Map_get m k'"
  by (induction m) auto

lemma Map_get_delete_same: "Map_get (Map_delete m k) k = None"
  by (induction m) (auto simp: Map_delete_def)

lemma Map_get_delete_other: "k' \<noteq> k \<Longrightarrow> Map_get (Map_delete m k) k' = Map_get m k'"
  by (induction m) (auto simp: Map_delete_def)

lemma keys_Map_set: "fst ` set (Map_set m k v) = insert k (fst ` set m)"
  by (induction m) force+

lemma distinct_Map_set: "distinct (map fst m) \<Longrightarrow> distinct (map fst (Map_set m k v))"
  by (induction m) (auto simp: keys_Map_set)

lemma distinct_Map_delete: "distinct (map fst m) \<Longrightarrow> distinct (map fst (Map_delete m k))"
  by (simp add: Map_delete_def distinct_map_filter)

lemma filter_absent_key: "k \<notin> set (map fst m) \<Longrightarrow> filter (\<lambda>e. fst e = k) m = []"
  by (induction m) auto

lemma entries_Map_set:
  "distinct (map fst m) \<Longrightarrow> filter (\<lambda>e. fst e = k) (Map_set m k v) = [(k, v)]"
  by (induction m) (auto simp: filter_absent_key)

lemma nth_update_found:
  "findIndex P xs = Some k \<Longrightarrow> (xs[k := y]) ! j = (if k = j then y else xs ! j)"
  using findIndex_SomeD [of P xs k] by (simp add: nth_list_update)

lemma authMiddleware_accepts:
  "authMiddleware cred s = (Inr u, s1) \<Longrightarrow> s1 = s"
  by (auto simp: authMiddleware_def readData_def split: credentials.splits option.splits)

lemma with_auth_accepted:
  "fst (authMiddleware cred s) = Inr u \<Longrightarrow> with_auth cred route s = route u s"
  using authMiddleware_accepts [of cred s u "snd (authMiddleware cred s)"]
  by (cases "authMiddleware cred s") (simp add: with_auth_def)

lemma handle_alert_request_step:
  assumes "emergency s = Some al"
  shows "\<exists>al'. emergency (handle_alert_request r s) = Some al' \<and> length al' = length al
           \<and> (\<forall>i<length al. a_id (al' ! i) = a_id (al ! i)
                 \<and> (terminal (al ! i) \<longrightarrow> terminal (al' ! i)))"
proof (cases r)
  case (ResolveAlert u aid now)
  show ?thesis
    using assms
    by (auto simp: ResolveAlert post_resolve_def readData_def writeData_def put_emergency_def
          Let_def terminal_def nth_update_found split: option.splits)
next
  case (CancelAlert u aid now)
  show ?thesis
    using assms
    by (auto simp: CancelAlert post_cancel_def readData_def writeData_def put_emergency_def
          Let_def terminal_def nth_update_found split: option.splits)
qed

section \<open>Lemmas on the routes and handlers\<close>

text \<open>The HTTP route for group messages turns a non-member away and changes nothing.\<close>

lemma post_group_messages_non_member:
  assumes "groups s = Some gs" and "find (\<lambda>g. g_id g = gid) gs = Some grp"
      and "u_id u \<notin> set (members grp)"
  shows "post_group_messages u gid c i t s =
           (if truthy c then Response 403 False ''You are not a member of this group'' NoPayload
            else Response 400 False ''Message content is required'' NoPayload, s)"
  using assms by (simp add: post_group_messages_def readData_def)

text \<open>The HTTP route adds one to the message count of the group it found.\<close>

lemma post_group_messages_counts:
  assumes "truthy c" and "groups s = Some gs" and "findIndex (\<lambda>g. g_id g = gid) gs = Some k"
      and "u_id u \<in> set (members (gs ! k))" and "writable s Groups"
  shows "groups (snd (post_group_messages u gid c i t s))
           = Some (gs[k := (gs ! k)\<lparr>messageCount := messageCount (gs ! k) + 1\<rparr>])"
proof -
  have "find (\<lambda>g. g_id g = gid) gs = Some (gs ! k)"
    using assms(3) by (induction gs arbitrary: k) (auto split: if_splits option.splits)
  then show ?thesis
    using assms
    by (simp add: post_group_messages_def readData_def writeData_def emit_def Let_def
          put_messages_def put_groups_def split: option.splits)
qed

text \<open>The socket handlers never write the groups, direct messages or alerts.\<close>

lemma on_send_group_message_keeps_groups:
  "groups (on_send_group_message sid d i t s) = groups s"
  by (simp add: on_send_group_message_def readData_def writeData_def emit_def Let_def
        put_messages_def split: option.splits)

lemma on_direct_message_persists_nothing:
  "on_direct_message sid d t s = Inr s' \<Longrightarrow> directMessages s' = directMessages s"
  by (auto simp: on_direct_message_def emit_def split: option.splits if_splits)

lemma on_emergency_alert_persists_nothing:
  "on_emergency_alert sid d t s = Inr s' \<Longrightarrow> emergency s' = emergency s"
  by (auto simp: on_emergency_alert_def emit_def split: option.splits)

text \<open>
  For a member whose socket is bound to the id of \<open>req.user\<close>, the route and the socket
  handler leave the same messages collection.
\<close>

lemma group_message_same_record:
  assumes "truthy c" and "groups s = Some gs" and "find (\<lambda>g. g_id g = gid) gs = Some grp"
      and "u_id u \<in> set (members grp)" and "socket_userId s sid = JStr (u_id u)"
  shows "messages (snd (post_group_messages u gid c i t s))
           = messages (on_send_group_message sid (Some \<lparr>groupId = JStr gid, content = c\<rparr>) i t s)"
proof -
  obtain k where k: "findIndex (\<lambda>g. g_id g = gid) gs = Some k"
    using find_findIndex [OF assms(3)] by blast
  show ?thesis
    using assms k
    by (simp add: post_group_messages_def on_send_group_message_def readData_def writeData_def
          emit_def Let_def put_messages_def put_groups_def split: option.splits)
qed

text \<open>
  No route looks at what \<open>writeData\<close> returns: the response and the events sent are the
  same whichever writes succeed.
\<close>

lemma post_group_messages_ignores_write:
  "fst (post_group_messages u gid c i t (s\<lparr>writable := w\<rparr>)) = fst (post_group_messages u gid c i t s)
   \<and> emitted (snd (post_group_messages u gid c i t (s\<lparr>writable := w\<rparr>)))
       = emitted (snd (post_group_messages u gid c i t s))"
  by (simp add: post_group_messages_def readData_def writeData_def emit_def Let_def
        put_messages_def put_groups_def split: option.splits)

lemma post_emergency_alert_ignores_write:
  "fst (post_emergency_alert u m l sv i t1 t2 (s\<lparr>writable := w\<rparr>))
     = fst (post_emergency_alert u m l sv i t1 t2 s)
   \<and> emitted (snd (post_emergency_alert u m l sv i t1 t2 (s\<lparr>writable := w\<rparr>)))
       = emitted (snd (post_emergency_alert u m l sv i t1 t2 s))"
  by (simp add: post_emergency_alert_def readData_def writeData_def emit_def Let_def
        put_emergency_def split: option.splits)

lemma post_messages_send_ignores_write:
  "fst (post_messages_send u r c i t1 t2 (s\<lparr>writable := w\<rparr>)) = fst (post_messages_send u r c i t1 t2 s)
   \<and> emitted (snd (post_messages_send u r c i t1 t2 (s\<lparr>writable := w\<rparr>)))
       = emitted (snd (post_messages_send u r c i t1 t2 s))"
  by (simp add: post_messages_send_def readData_def writeData_def emit_def Let_def
        put_directMessages_def split: option.splits)

lemma post_resolve_ignores_write:
  "fst (post_resolve u a t (s\<lparr>writable := w\<rparr>)) = fst (post_resolve u a t s)
   \<and> emitted (snd (post_resolve u a t (s\<lparr>writable := w\<rparr>))) = emitted (snd (post_resolve u a t s))"
  by (simp add: post_resolve_def readData_def writeData_def emit_def Let_def
        put_emergency_def split: option.splits)

lemma post_cancel_ignores_write:
  "fst (post_cancel u a t (s\<lparr>writable := w\<rparr>)) = fst (post_cancel u a t s)
   \<and> emitted (snd (post_cancel u a t (s\<lparr>writable := w\<rparr>))) = emitted (snd (post_cancel u a t s))"
  by (simp add: post_cancel_def readData_def writeData_def emit_def Let_def
        put_emergency_def split: option.splits)

lemma on_send_group_message_ignores_write:
  "emitted (on_send_group_message sid d i t (s\<lparr>writable := w\<rparr>))
     = emitted (on_send_group_message sid d i t s)"
  by (simp add: on_send_group_message_def readData_def writeData_def emit_def Let_def
        put_messages_def split: option.splits)

section \<open>Lemmas on appends and on failed writes\<close>

text \<open>
  Handled one after the other, \<open>send-group-message\<close> events lose nothing: every event with
  a payload adds one record, whatever the order of the list.
\<close>

lemma on_send_group_message_append:
  assumes "messages s = Some ms" and "writable s Messages"
  shows "writable (on_send_group_message sid d i t s) = writable s
       \<and> (\<exists>ms'. messages (on_send_group_message sid d i t s) = Some ms'
             \<and> length ms' = length ms + (if d = None then 0 else 1))"
  using assms
  by (cases d) (simp_all add: on_send_group_message_def readData_def writeData_def emit_def
        Let_def put_messages_def)

lemma no_append_lost_in_any_order:
  assumes "messages s = Some ms" and "writable s Messages"
  shows "\<exists>ms'. messages (run_group_message_events es s) = Some ms'
           \<and> length ms' = length ms + length (filter (\<lambda>e. fst (snd e) \<noteq> None) es)"
  using assms
proof (induction es arbitrary: s ms)
  case Nil
  then show ?case by (simp add: run_group_message_events_def)
next
  case (Cons e es)
  obtain sid d i t where e: "e = (sid, d, i, t)"
    by (cases e) auto
  from on_send_group_message_append [OF Cons.prems, of sid d i t]
  obtain ms1 where w: "writable (on_send_group_message sid d i t s) Messages"
    and m: "messages (on_send_group_message sid d i t s) = Some ms1"
    and l: "length ms1 = length ms + (if d = None then 0 else 1)"
    using Cons.prems(2) by auto
  from Cons.IH [OF m w]
  show ?case
    using l e by (auto simp: run_group_message_events_def handle_group_message_event_def)
qed

text \<open>
  The two steps of a registration that passes its tests, the overlapping schedule, which
  keeps only the second user, and the schedule without overlap, which keeps both.
\<close>

lemma register_load_accepts:
  assumes "users s = Some us"
      and "rq_username q \<noteq> []" and "rq_email q \<noteq> []" and "rq_password q \<noteq> []"
      and "find (\<lambda>u. email u = rq_email q \<or> username u = rq_username q) us = None"
  shows "load_request q s = (Inr (PendingRegister (rq_username q) (rq_email q) (rq_password q) us), s)"
  using assms by (simp add: load_request_def register_load_def readData_def)

lemma save_request_pending:
  assumes "writable s Users"
  shows "save_request (Inr (PendingRegister (rq_username q) (rq_email q) (rq_password q) us)) q s
           = (Response 201 True ''User registered successfully''
                (UserData (rq_token q)
                   \<lparr>r_id = rq_id q, r_username = rq_username q, r_email = rq_email q,
                    r_profile = \<lparr>p_name = rq_username q, p_avatar = []\<rparr>\<rparr>),
              s\<lparr>users := Some (us @ [user_of_request q])\<rparr>)"
  using assms
  by (simp add: save_request_def register_save_def writeData_def put_users_def Let_def
        user_of_request_def)

lemma register_lost_update:
  assumes "users s = Some us" and "writable s Users"
      and "rq_username a \<noteq> []" and "rq_email a \<noteq> []" and "rq_password a \<noteq> []"
      and "rq_username b \<noteq> []" and "rq_email b \<noteq> []" and "rq_password b \<noteq> []"
      and "find (\<lambda>u. email u = rq_email a \<or> username u = rq_username a) us = None"
      and "find (\<lambda>u. email u = rq_email b \<or> username u = rq_username b) us = None"
  shows "res_status (fst (register_overlapping a b s)) = 201
       \<and> res_status (fst (snd (register_overlapping a b s))) = 201
       \<and> users (snd (snd (register_overlapping a b s))) = Some (us @ [user_of_request b])"
proof -
  have la: "load_request a s = (Inr (PendingRegister (rq_username a) (rq_email a) (rq_password a) us), s)"
    using assms by (simp add: register_load_accepts)
  have lb: "load_request b s = (Inr (PendingRegister (rq_username b) (rq_email b) (rq_password b) us), s)"
    using assms by (simp add: register_load_accepts)
  have w2: "writable (s\<lparr>users := Some (us @ [user_of_request a])\<rparr>) Users"
    using assms(2) by simp
  show ?thesis
    by (simp add: register_overlapping_def la lb save_request_pending [OF assms(2)]
          save_request_pending [OF w2])
qed

lemma register_one_by_one_keeps_both:
  assumes "users s = Some us" and "writable s Users"
      and "rq_username a \<noteq> []" and "rq_email a \<noteq> []" and "rq_password a \<noteq> []"
      and "rq_username b \<noteq> []" and "rq_email b \<noteq> []" and "rq_password b \<noteq> []"
      and "find (\<lambda>u. email u = rq_email a \<or> username u = rq_username a) us = None"
      and "find (\<lambda>u. email u = rq_email b \<or> username u = rq_username b) us = None"
      and "rq_email a \<noteq> rq_email b" and "rq_username a \<noteq> rq_username b"
  shows "res_status (fst (register_one_by_one a b s)) = 201
       \<and> res_status (fst (snd (register_one_by_one a b s))) = 201
       \<and> users (snd (snd (register_one_by_one a b s)))
           = Some (us @ [user_of_request a, user_of_request b])"
proof -
  let ?s1 = "s\<lparr>users := Some (us @ [user_of_request a])\<rparr>"
  have la: "load_request a s = (Inr (PendingRegister (rq_username a) (rq_email a) (rq_password a) us), s)"
    using assms by (simp add: register_load_accepts)
  have fb: "find (\<lambda>u. email u = rq_email b \<or> username u = rq_username b) (us @ [user_of_request a]) = None"
    using assms(10,11,12) by (auto simp: find_None_iff user_of_request_def)
  have lb: "load_request b ?s1
              = (Inr (PendingRegister (rq_username b) (rq_email b) (rq_password b)
                       (us @ [user_of_request a])), ?s1)"
    using assms(6,7,8) fb by (simp add: register_load_accepts)
  have w2: "writable ?s1 Users"
    using assms(2) by simp
  show ?thesis
    by (simp add: register_one_by_one_def la lb save_request_pending [OF assms(2)]
          save_request_pending [OF w2])
qed

text \<open>
  One lemma for each route or handler that writes: with the write failing, the response,
  the events sent, the collection on disk and the error log.
\<close>

lemma group_write_failure:
  assumes "truthy c" and "groups s = Some gs" and "find (\<lambda>g. g_id g = gid) gs = Some grp"
      and "u_id u \<in> set (members grp)"
      and "\<not> writable s Messages" and "\<not> writable s Groups"
  shows "let r = post_group_messages u gid c i t s;
             m = \<lparr>m_id = i, m_groupId = JStr gid, m_userId = JStr (u_id u), m_content = c,
                  messageType = ''text'', m_reactions = zero_reactions, isEdited = False,
                  m_createdAt = t\<rparr>;
             usr = (case users s of None \<Rightarrow> None
                    | Some us \<Rightarrow> map_option user_info_of (find (\<lambda>x. u_id x = u_id u) us))
         in fst r = Response 201 True ''Message sent'' (MessageData m usr)
          \<and> emitted (snd r) = emitted s @ [(ToRoom (''group-'' @ gid), NewMessage m (Some usr))]
          \<and> messages (snd r) = messages s \<and> groups (snd r) = groups s
          \<and> WriteError Messages \<in> set (errlog (snd r))
          \<and> WriteError Groups \<in> set (errlog (snd r))"
proof -
  obtain k where k: "findIndex (\<lambda>g. g_id g = gid) gs = Some k"
    using find_findIndex [OF assms(3)] by blast
  show ?thesis
    using assms k
    by (simp add: post_group_messages_def readData_def writeData_def emit_def Let_def
          split: option.splits)
qed

lemma socket_write_failure:
  assumes "\<not> writable s Messages"
  shows "let m = \<lparr>m_id = i, m_groupId = groupId d, m_userId = socket_userId s sid,
                  m_content = content d, messageType = ''text'', m_reactions = zero_reactions,
                  isEdited = False, m_createdAt = t\<rparr>;
             s' = on_send_group_message sid (Some d) i t s
         in emitted s' = emitted s @ [(ToRoom (''group-'' @ toString (groupId d)), NewMessage m None)]
          \<and> messages s' = messages s \<and> WriteError Messages \<in> set (errlog s')"
  using assms
  by (simp add: on_send_group_message_def readData_def writeData_def emit_def Let_def
        split: option.splits)

lemma alert_write_failure:
  assumes "\<not> writable s Emergency"
  shows "let r = post_emergency_alert u msg loc sev i t1 t2 s;
             a = \<lparr>a_id = i, a_userId = u_id u, a_status = Active,
                  a_location = (if truthy_obj loc then loc else JObject []),
                  a_message = js_or msg (JStr []), a_severity = js_or sev (JStr ''high''),
                  a_createdAt = t1, resolvedAt = None, cancelledAt = None\<rparr>
         in fst r = Response 201 True ''Emergency alert activated'' (AlertData a)
          \<and> emitted (snd r)
              = emitted s @ [(ToAll, EmergencyBroadcast (JStr (u_id u))
                   (Some (if p_name (u_profile u) \<noteq> [] then p_name (u_profile u) else username u))
                   loc msg t2 (Some i))]
          \<and> emergency (snd r) = emergency s
          \<and> WriteError Emergency \<in> set (errlog (snd r))"
  using assms
  by (simp add: post_emergency_alert_def readData_def writeData_def emit_def Let_def
        split: option.splits)

lemma direct_write_failure:
  assumes "truthy rcp" and "truthy c" and "\<not> writable s DirectMessages"
  shows "let r = post_messages_send u rcp c i t1 t2 s;
             dm = \<lparr>d_id = i, sender = u_id u, recipient = rcp, d_content = c, isRead = False,
                   d_createdAt = t1\<rparr>
         in fst r = Response 201 True ''Message sent'' (DirectData dm)
          \<and> emitted (snd r)
              = emitted s @
                (case Map_get (connectedUsers s) rcp of
                   None \<Rightarrow> []
                 | Some recipientSocket \<Rightarrow>
                     if recipientSocket \<noteq> []
                     then [(ToRoom recipientSocket,
                            NewDirectMessage (JStr (u_id u)) (Some (p_name (u_profile u))) c t2)]
                     else [])
          \<and> directMessages (snd r) = directMessages s
          \<and> WriteError DirectMessages \<in> set (errlog (snd r))"
  using assms
  by (simp add: post_messages_send_def readData_def writeData_def emit_def Let_def
        split: option.splits)

lemma resolve_write_failure:
  assumes "emergency s = Some al" and "findIndex (\<lambda>a. a_id a = aid) al = Some k"
      and "\<not> writable s Emergency"
  shows "let r = post_resolve u aid t s
         in fst r = Response 200 True ''Emergency alert resolved''
                      (AlertData ((al ! k)\<lparr>a_status := Resolved, resolvedAt := Some t\<rparr>))
          \<and> emitted (snd r) = emitted s
          \<and> emergency (snd r) = emergency s
          \<and> WriteError Emergency \<in> set (errlog (snd r))"
  using assms findIndex_SomeD [OF assms(2)]
  by (simp add: post_resolve_def readData_def writeData_def Let_def)

lemma cancel_write_failure:
  assumes "emergency s = Some al" and "findIndex (\<lambda>a. a_id a = aid) al = Some k"
      and "a_userId (al ! k) = u_id u" and "\<not> writable s Emergency"
  shows "let r = post_cancel u aid t s
         in fst r = Response 200 True ''Emergency alert cancelled''
                      (AlertData ((al ! k)\<lparr>a_status := Cancelled, cancelledAt := Some t\<rparr>))
          \<and> emitted (snd r) = emitted s
          \<and> emergency (snd r) = emergency s
          \<and> WriteError Emergency \<in> set (errlog (snd r))"
  using assms findIndex_SomeD [OF assms(2)]
  by (simp add: post_cancel_def readData_def writeData_def Let_def)

lemma register_write_failure:
  assumes "\<not> writable s Users"
  shows "let r = register_save p h i tok s
         in fst r = Response 201 True ''User registered successfully''
                      (UserData tok \<lparr>r_id = i, r_username = pr_username p, r_email = pr_email p,
                         r_profile = \<lparr>p_name = pr_username p, p_avatar = []\<rparr>\<rparr>)
          \<and> emitted (snd r) = emitted s
          \<and> users (snd r) = users s
          \<and> WriteError Users \<in> set (errlog (snd r))"
  using assms
  by (simp add: register_save_def writeData_def Let_def)

section \<open>The presence table\<close>

text \<open>
  C7. For every user identity \<open>u\<close> and connections \<open>c1\<close>, \<open>c2\<close>: after \<open>user-join\<close> of
  \<open>u\<close> on \<open>c1\<close> and then on \<open>c2\<close>, looking \<open>u\<close> up in \<open>connectedUsers\<close> gives \<open>c2\<close> and, when
  the two connections differ, not \<open>c1\<close>; the second announce replaces the entry, so the table
  holds exactly one entry for \<open>u\<close> and its keys stay distinct. The lookup of the HTTP route
  for direct messages sees the same entry: a message to \<open>u\<close> is emitted to the room of \<open>c2\<close>.
\<close>

theorem announce_twice_resolves_second:
  assumes "distinct (map fst (connectedUsers s))"
  shows "let s2 = on_user_join c2 u (on_user_join c1 u s) in
           Map_get (connectedUsers s2) u = Some c2
         \<and> (c1 \<noteq> c2 \<longrightarrow> Map_get (connectedUsers s2) u \<noteq> Some c1)
         \<and> filter (\<lambda>e. fst e = u) (connectedUsers s2) = [(u, c2)]
         \<and> distinct (map fst (connectedUsers s2))
         \<and> (truthy u \<and> truthy c \<and> c2 \<noteq> [] \<longrightarrow>
              emitted (snd (post_messages_send v u c i t1 t2 s2))
                = emitted s2 @ [(ToRoom c2,
                     NewDirectMessage (JStr (u_id v)) (Some (p_name (u_profile v))) c t2)])"
  using assms
  by (simp add: on_user_join_def emit_def Let_def Map_get_set_same entries_Map_set distinct_Map_set
       post_messages_send_def readData_def writeData_def put_directMessages_def
       split: option.splits prod.splits)

theorem announce_twice_resolves_second_witness:
  "distinct (map fst (connectedUsers ex_state)) \<and> ''c1'' \<noteq> ''c2''
   \<and> truthy (JStr ''u1'') \<and> truthy (JStr ''hi'') \<and> ''c2'' \<noteq> []
   \<and> Map_get (connectedUsers (on_user_join ''c2'' (JStr ''u1'')
         (on_user_join ''c1'' (JStr ''u1'') ex_state))) (JStr ''u1'') = Some ''c2''
   \<and> Map_get (connectedUsers (on_user_join ''c2'' (JStr ''u1'')
         (on_user_join ''c1'' (JStr ''u1'') ex_state))) (JStr ''u1'') \<noteq> Some ''c1''
   \<and> emitted (snd (post_messages_send ex_user2 (JStr ''u1'') (JStr ''hi'') ''d1'' 3 4
          (on_user_join ''c2'' (JStr ''u1'') (on_user_join ''c1'' (JStr ''u1'') ex_state))))
      = emitted (on_user_join ''c2'' (JStr ''u1'') (on_user_join ''c1'' (JStr ''u1'') ex_state))
        @ [(ToRoom ''c2'', NewDirectMessage (JStr (u_id ex_user2))
              (Some (p_name (u_profile ex_user2))) (JStr ''hi'') 4)]"
proof -
  have d: "distinct (map fst (connectedUsers ex_state))"
    by (simp add: ex_state_def)
  show ?thesis
    using d announce_twice_resolves_second
            [OF d, of "''c2''" "JStr ''u1''" "''c1''" "JStr ''hi''" ex_user2 "''d1''" 3 4]
    by (simp add: Let_def)
qed

text \<open>
  C8. A user \<open>u\<close> (a truthy identity, as every generated user id is) announces presence on
  \<open>c1\<close> and then on \<open>c2\<close>, so that \<open>c2\<close> is the entry of \<open>u\<close>. When the stale connection
  \<open>c1\<close> then disconnects, the entry of \<open>u\<close> is deleted: looking \<open>u\<close> up gives nothing, and
  an offline status with the new total is sent to everyone, although the socket \<open>c2\<close> is
  still bound to \<open>u\<close>.
\<close>

theorem stale_disconnect_removes_presence:
  assumes "truthy u"
  shows "let s2 = on_user_join c2 u (on_user_join c1 u s); s3 = on_disconnect c1 s2 in
           Map_get (connectedUsers s2) u = Some c2
         \<and> Map_get (connectedUsers s3) u = None
         \<and> emitted s3 = emitted s2 @ [(ToAll, UserStatus u ''offline'' (Map_size (connectedUsers s3)))]
         \<and> socket_userId s3 c2 = u"
  using assms
  by (simp add: on_user_join_def on_disconnect_def emit_def Let_def Map_get_set_same
        Map_get_delete_same)

theorem stale_disconnect_removes_presence_witness:
  "truthy (JStr ''u1'')
   \<and> Map_get (connectedUsers (on_user_join ''c2'' (JStr ''u1'')
         (on_user_join ''c1'' (JStr ''u1'') ex_state))) (JStr ''u1'') = Some ''c2''
   \<and> Map_get (connectedUsers (on_disconnect ''c1'' (on_user_join ''c2'' (JStr ''u1'')
         (on_user_join ''c1'' (JStr ''u1'') ex_state)))) (JStr ''u1'') = None
   \<and> emitted (on_disconnect ''c1'' (on_user_join ''c2'' (JStr ''u1'')
         (on_user_join ''c1'' (JStr ''u1'') ex_state)))
      = [(ToAll, UserStatus (JStr ''u1'') ''online'' 1), (ToAll, UserStatus (JStr ''u1'') ''online'' 1),
         (ToAll, UserStatus (JStr ''u1'') ''offline'' 0)]"
proof -
  have t: "truthy (JStr ''u1'')" by simp
  show ?thesis
    using t stale_disconnect_removes_presence [OF t, of "''c2''" "''c1''" ex_state]
    by (simp add: Let_def on_user_join_def on_disconnect_def emit_def Map_size_def Map_delete_def
          ex_state_def)
qed

section \<open>Emergency alerts\<close>

text \<open>
  C9. For every caller the middleware accepts and every id found in the alerts collection,
  the resolve route answers 200 with the alert set to resolved, whoever owns the alert, and
  the collection on disk holds that alert when the write succeeds. The cancel route answers
  404 \<open>Alert not found\<close> and changes nothing unless the caller's id equals the \<open>userId\<close> of
  the alert; for the owner it answers 200 with the alert set to cancelled.
\<close>

theorem resolve_any_caller_cancel_owner_only:
  assumes "fst (authMiddleware cred s) = Inr caller"
      and "emergency s = Some al"
      and "findIndex (\<lambda>a. a_id a = aid) al = Some i"
  shows "fst (with_auth cred (\<lambda>u. post_resolve u aid now) s)
           = Response 200 True ''Emergency alert resolved''
               (AlertData ((al ! i)\<lparr>a_status := Resolved, resolvedAt := Some now\<rparr>))
       \<and> emergency (snd (with_auth cred (\<lambda>u. post_resolve u aid now) s))
           = (if writable s Emergency
              then Some (al[i := (al ! i)\<lparr>a_status := Resolved, resolvedAt := Some now\<rparr>])
              else Some al)
       \<and> fst (with_auth cred (\<lambda>u. post_cancel u aid now) s)
           = (if a_userId (al ! i) \<noteq> u_id caller
              then Response 404 False ''Alert not found'' NoPayload
              else Response 200 True ''Emergency alert cancelled''
                     (AlertData ((al ! i)\<lparr>a_status := Cancelled, cancelledAt := Some now\<rparr>)))
       \<and> emergency (snd (with_auth cred (\<lambda>u. post_cancel u aid now) s))
           = (if a_userId (al ! i) = u_id caller \<and> writable s Emergency
              then Some (al[i := (al ! i)\<lparr>a_status := Cancelled, cancelledAt := Some now\<rparr>])
              else Some al)"
proof -
  have i: "i < length al"
    using findIndex_SomeD [OF assms(3)] by simp
  show ?thesis
    using assms(2,3) i
    by (simp add: with_auth_accepted [OF assms(1)] post_resolve_def post_cancel_def readData_def
          writeData_def put_emergency_def Let_def)
qed

theorem resolve_any_caller_cancel_owner_only_witness:
  "fst (authMiddleware (Token ''u2'') ex_state_alert) = Inr ex_user2
   \<and> emergency ex_state_alert = Some [ex_alert]
   \<and> findIndex (\<lambda>a. a_id a = ''a1'') [ex_alert] = Some 0
   \<and> a_userId ex_alert \<noteq> u_id ex_user2
   \<and> fst (with_auth (Token ''u2'') (\<lambda>u. post_resolve u ''a1'' 9) ex_state_alert)
       = Response 200 True ''Emergency alert resolved''
           (AlertData (ex_alert\<lparr>a_status := Resolved, resolvedAt := Some 9\<rparr>))
   \<and> emergency (snd (with_auth (Token ''u2'') (\<lambda>u. post_resolve u ''a1'' 9) ex_state_alert))
       = Some [ex_alert\<lparr>a_status := Resolved, resolvedAt := Some 9\<rparr>]
   \<and> fst (with_auth (Token ''u2'') (\<lambda>u. post_cancel u ''a1'' 9) ex_state_alert)
       = Response 404 False ''Alert not found'' NoPayload
   \<and> emergency (snd (with_auth (Token ''u2'') (\<lambda>u. post_cancel u ''a1'' 9) ex_state_alert))
       = Some [ex_alert]"
proof -
  have a: "fst (authMiddleware (Token ''u2'') ex_state_alert) = Inr ex_user2"
    by (simp add: authMiddleware_def readData_def ex_state_alert_def ex_state_def ex_user1_def
          ex_user2_def)
  have b: "emergency ex_state_alert = Some [ex_alert]"
    by (simp add: ex_state_alert_def)
  have c: "findIndex (\<lambda>a. a_id a = ''a1'') [ex_alert] = Some 0"
    by (simp add: ex_alert_def)
  have w: "writable ex_state_alert Emergency"
    by (simp add: ex_state_alert_def ex_state_def)
  have o: "a_userId ex_alert \<noteq> u_id ex_user2"
    by (simp add: ex_alert_def ex_user2_def)
  show ?thesis
    using a b c o w resolve_any_caller_cancel_owner_only [OF a b c, of 9]
    by simp
qed

text \<open>
  C4, as the code has it. Neither route looks at the status it overwrites, so a resolved
  alert can still be cancelled by its owner and a cancelled one resolved by anybody. What
  holds is that a resolved or cancelled alert stays resolved or cancelled: after any
  sequence of resolve and cancel requests the alert at the same position of the collection
  has the same id and is not active again.
\<close>

theorem terminal_alert_stays_terminal:
  assumes "emergency s = Some al" and "i < length al" and "terminal (al ! i)"
  shows "\<exists>al'. emergency (run_alert_requests rs s) = Some al' \<and> length al' = length al
           \<and> a_id (al' ! i) = a_id (al ! i) \<and> terminal (al' ! i)"
  using assms
proof (induction rs arbitrary: s al)
  case Nil
  then show ?case by (simp add: run_alert_requests_def)
next
  case (Cons r rs)
  from handle_alert_request_step [OF Cons.prems(1), of r]
  obtain al1 where st: "emergency (handle_alert_request r s) = Some al1"
    and len: "length al1 = length al"
    and keep: "\<forall>j<length al. a_id (al1 ! j) = a_id (al ! j)
                 \<and> (terminal (al ! j) \<longrightarrow> terminal (al1 ! j))"
    by blast
  have i1: "i < length al1" using Cons.prems(2) len by simp
  have t1: "terminal (al1 ! i)" using keep Cons.prems(2,3) by blast
  have id1: "a_id (al1 ! i) = a_id (al ! i)" using keep Cons.prems(2) by blast
  from Cons.IH [OF st i1 t1]
  show ?case
    using len id1 by (simp add: run_alert_requests_def)
qed

theorem terminal_alert_stays_terminal_witness:
  "emergency ex_state_alert = Some [ex_alert] \<and> 0 < length [ex_alert] \<and> terminal ([ex_alert] ! 0)
   \<and> (\<exists>al'. emergency (run_alert_requests
                 [CancelAlert ex_user1 ''a1'' 9, ResolveAlert ex_user2 ''a1'' 10] ex_state_alert)
               = Some al'
          \<and> length al' = length [ex_alert] \<and> a_id (al' ! 0) = a_id ([ex_alert] ! 0)
          \<and> terminal (al' ! 0))"
proof -
  have a: "emergency ex_state_alert = Some [ex_alert]"
    by (simp add: ex_state_alert_def)
  have b: "0 < length [ex_alert]" by simp
  have c: "terminal ([ex_alert] ! 0)" by (simp add: terminal_def ex_alert_def)
  show ?thesis
    using a b c terminal_alert_stays_terminal [OF a b c] by simp
qed

text \<open>
  The claim as stated fails: the alert of the example is resolved, and the cancel request
  of its owner turns it into a cancelled one.
\<close>

theorem resolved_alert_cancelled_counterexample:
  "emergency ex_state_alert = Some [ex_alert] \<and> a_status ex_alert = Resolved
   \<and> emergency (snd (post_cancel ex_user1 ''a1'' 9 ex_state_alert))
       = Some [ex_alert\<lparr>a_status := Cancelled, cancelledAt := Some 9\<rparr>]"
  by (simp add: ex_state_alert_def ex_state_def ex_alert_def ex_user1_def post_cancel_def
        readData_def writeData_def put_emergency_def Let_def)

section \<open>Group messages\<close>

text \<open>
  C1, at the input where the code leaves it. The second user is not a member of the group.
  The HTTP route turns the request away with 403 and changes nothing; the
  \<open>send-group-message\<close> event of the same user, announced on socket \<open>c2\<close>, writes the
  message to the collection and sends it to the room of the group.
\<close>

theorem non_member_socket_message_persisted:
  "u_id ex_user2 \<notin> set (members ex_group)
   \<and> post_group_messages ex_user2 ''g1'' (JStr ''hi'') ''m1'' 7 ex_state
       = (Response 403 False ''You are not a member of this group'' NoPayload, ex_state)
   \<and> socket_userId (on_user_join ''c2'' (JStr ''u2'') (on_connection ''c2'' ex_state)) ''c2''
       = JStr ''u2''
   \<and> messages (on_send_group_message ''c2''
         (Some \<lparr>groupId = JStr ''g1'', content = JStr ''hi''\<rparr>) ''m1'' 7
         (on_user_join ''c2'' (JStr ''u2'') (on_connection ''c2'' ex_state)))
       = Some [\<lparr>m_id = ''m1'', m_groupId = JStr ''g1'', m_userId = JStr ''u2'',
                m_content = JStr ''hi'', messageType = ''text'', m_reactions = zero_reactions,
                isEdited = False, m_createdAt = 7\<rparr>]
   \<and> emitted (on_send_group_message ''c2''
         (Some \<lparr>groupId = JStr ''g1'', content = JStr ''hi''\<rparr>) ''m1'' 7
         (on_user_join ''c2'' (JStr ''u2'') (on_connection ''c2'' ex_state)))
       = [(ToAll, UserStatus (JStr ''u2'') ''online'' 1),
          (ToRoom ''group-g1'',
           NewMessage \<lparr>m_id = ''m1'', m_groupId = JStr ''g1'', m_userId = JStr ''u2'',
                m_content = JStr ''hi'', messageType = ''text'', m_reactions = zero_reactions,
                isEdited = False, m_createdAt = 7\<rparr> None)]"
  by (simp add: ex_state_def ex_user2_def ex_user1_def ex_group_def post_group_messages_def
        on_send_group_message_def on_user_join_def on_connection_def readData_def writeData_def
        emit_def Let_def put_messages_def Map_size_def)

text \<open>
  C2, at the input where the code leaves it. The first user is a member of the group, whose
  message count is 0. The HTTP route writes the count 1; the \<open>send-group-message\<close> event
  of the same user on socket \<open>c1\<close> appends the message and leaves the groups collection,
  and so the count, as it was.
\<close>

theorem socket_message_count_unchanged:
  "u_id ex_user1 \<in> set (members ex_group) \<and> messageCount ex_group = 0
   \<and> groups (snd (post_group_messages ex_user1 ''g1'' (JStr ''hi'') ''m1'' 7 ex_state))
       = Some [ex_group\<lparr>messageCount := 1\<rparr>]
   \<and> socket_userId (on_user_join ''c1'' (JStr ''u1'') (on_connection ''c1'' ex_state)) ''c1''
       = JStr ''u1''
   \<and> messages (on_send_group_message ''c1''
         (Some \<lparr>groupId = JStr ''g1'', content = JStr ''hi''\<rparr>) ''m1'' 7
         (on_user_join ''c1'' (JStr ''u1'') (on_connection ''c1'' ex_state)))
       = Some [\<lparr>m_id = ''m1'', m_groupId = JStr ''g1'', m_userId = JStr ''u1'',
                m_content = JStr ''hi'', messageType = ''text'', m_reactions = zero_reactions,
                isEdited = False, m_createdAt = 7\<rparr>]
   \<and> groups (on_send_group_message ''c1''
         (Some \<lparr>groupId = JStr ''g1'', content = JStr ''hi''\<rparr>) ''m1'' 7
         (on_user_join ''c1'' (JStr ''u1'') (on_connection ''c1'' ex_state)))
       = Some [ex_group]"
  by (simp add: ex_state_def ex_user2_def ex_user1_def ex_group_def post_group_messages_def
        on_send_group_message_def on_user_join_def on_connection_def readData_def writeData_def
        emit_def Let_def put_messages_def put_groups_def Map_size_def)




section \<open>The two entry points of one action\<close>

text \<open>
  C5, at the input where the code leaves it. The first user, announced on socket \<open>c1\<close>,
  sends a direct message and raises an alert. Through the HTTP routes each leaves a record
  in its collection; through the \<open>direct-message\<close> and \<open>emergency-alert\<close> events the
  collections stay empty.
\<close>

theorem socket_direct_and_alert_not_persisted:
  "directMessages (snd (post_messages_send ex_user1 (JStr ''u2'') (JStr ''hi'') ''d1'' 7 8
        (on_user_join ''c1'' (JStr ''u1'') (on_connection ''c1'' ex_state))))
     = Some [\<lparr>d_id = ''d1'', sender = ''u1'', recipient = JStr ''u2'', d_content = JStr ''hi'',
              isRead = False, d_createdAt = 7\<rparr>]
   \<and> map_sum id directMessages
        (on_direct_message ''c1'' (Some \<lparr>recipientId = JStr ''u2'', dd_content = JStr ''hi''\<rparr>) 7
           (on_user_join ''c1'' (JStr ''u1'') (on_connection ''c1'' ex_state)))
     = Inr (Some [])
   \<and> emergency (snd (post_emergency_alert ex_user1 (JStr ''help'') (JObject []) JUndefined
        ''a1'' 7 8 (on_user_join ''c1'' (JStr ''u1'') (on_connection ''c1'' ex_state))))
     = Some [\<lparr>a_id = ''a1'', a_userId = ''u1'', a_status = Active, a_location = JObject [],
              a_message = JStr ''help'', a_severity = JStr ''high'', a_createdAt = 7,
              resolvedAt = None, cancelledAt = None\<rparr>]
   \<and> map_sum id emergency
        (on_emergency_alert ''c1'' (Some \<lparr>e_location = JObject [], e_message = JStr ''help''\<rparr>) 7
           (on_user_join ''c1'' (JStr ''u1'') (on_connection ''c1'' ex_state)))
     = Inr (Some [])"
  by (simp add: ex_state_def ex_user1_def post_messages_send_def post_emergency_alert_def
        on_direct_message_def on_emergency_alert_def on_user_join_def on_connection_def
        readData_def writeData_def emit_def Let_def put_directMessages_def put_emergency_def
        js_or_def Map_size_def)

section \<open>Failed writes\<close>

text \<open>
  C6. For every route and handler modelled here that writes a collection (the group message
  by HTTP and by socket, the emergency alert, the direct message, resolve, cancel and the
  second step of the registration): when the write fails, the caller still gets the
  response of success with the record built in memory, the event is still sent to the same
  target, the collection on disk is as before, and the failure is in the error log and
  nowhere else. The response and the events sent do not depend on which writes succeed.
\<close>

theorem write_failure_reported_as_success:
  "(truthy c \<and> groups s = Some gs \<and> find (\<lambda>g. g_id g = gid) gs = Some grp
      \<and> u_id u \<in> set (members grp) \<and> \<not> writable s Messages \<and> \<not> writable s Groups \<longrightarrow>
      (let r = post_group_messages u gid c i t s;
           m = \<lparr>m_id = i, m_groupId = JStr gid, m_userId = JStr (u_id u), m_content = c,
                messageType = ''text'', m_reactions = zero_reactions, isEdited = False,
                m_createdAt = t\<rparr>;
           usr = (case users s of None \<Rightarrow> None
                  | Some us \<Rightarrow> map_option user_info_of (find (\<lambda>x. u_id x = u_id u) us))
       in fst r = Response 201 True ''Message sent'' (MessageData m usr)
        \<and> emitted (snd r) = emitted s @ [(ToRoom (''group-'' @ gid), NewMessage m (Some usr))]
        \<and> messages (snd r) = messages s \<and> groups (snd r) = groups s
        \<and> WriteError Messages \<in> set (errlog (snd r))
        \<and> WriteError Groups \<in> set (errlog (snd r))))
   \<and> (\<not> writable s Messages \<longrightarrow>
      (let m = \<lparr>m_id = i, m_groupId = groupId d, m_userId = socket_userId s sid,
                m_content = content d, messageType = ''text'', m_reactions = zero_reactions,
                isEdited = False, m_createdAt = t\<rparr>;
           s' = on_send_group_message sid (Some d) i t s
       in emitted s' = emitted s @ [(ToRoom (''group-'' @ toString (groupId d)), NewMessage m None)]
        \<and> messages s' = messages s \<and> WriteError Messages \<in> set (errlog s')))
   \<and> (\<not> writable s Emergency \<longrightarrow>
      (let r = post_emergency_alert u msg loc sev i t te s;
           a = \<lparr>a_id = i, a_userId = u_id u, a_status = Active,
                a_location = (if truthy_obj loc then loc else JObject []),
                a_message = js_or msg (JStr []), a_severity = js_or sev (JStr ''high''),
                a_createdAt = t, resolvedAt = None, cancelledAt = None\<rparr>
       in fst r = Response 201 True ''Emergency alert activated'' (AlertData a)
        \<and> emitted (snd r)
            = emitted s @ [(ToAll, EmergencyBroadcast (JStr (u_id u))
                 (Some (if p_name (u_profile u) \<noteq> [] then p_name (u_profile u) else username u))
                 loc msg te (Some i))]
        \<and> emergency (snd r) = emergency s
        \<and> WriteError Emergency \<in> set (errlog (snd r))))
   \<and> (truthy rcp \<and> truthy c \<and> \<not> writable s DirectMessages \<longrightarrow>
      (let r = post_messages_send u rcp c i t te s;
           dm = \<lparr>d_id = i, sender = u_id u, recipient = rcp, d_content = c, isRead = False,
                 d_createdAt = t\<rparr>
       in fst r = Response 201 True ''Message sent'' (DirectData dm)
        \<and> emitted (snd r)
            = emitted s @
              (case Map_get (connectedUsers s) rcp of
                 None \<Rightarrow> []
               | Some recipientSocket \<Rightarrow>
                   if recipientSocket \<noteq> []
                   then [(ToRoom recipientSocket,
                          NewDirectMessage (JStr (u_id u)) (Some (p_name (u_profile u))) c te)]
                   else [])
        \<and> directMessages (snd r) = directMessages s
        \<and> WriteError DirectMessages \<in> set (errlog (snd r))))
   \<and> (emergency s = Some al \<and> findIndex (\<lambda>a. a_id a = aid) al = Some k
      \<and> \<not> writable s Emergency \<longrightarrow>
      (let r = post_resolve u aid t s
       in fst r = Response 200 True ''Emergency alert resolved''
                    (AlertData ((al ! k)\<lparr>a_status := Resolved, resolvedAt := Some t\<rparr>))
        \<and> emitted (snd r) = emitted s
        \<and> emergency (snd r) = emergency s
        \<and> WriteError Emergency \<in> set (errlog (snd r))))
   \<and> (emergency s = Some al \<and> findIndex (\<lambda>a. a_id a = aid) al = Some k
      \<and> a_userId (al ! k) = u_id u \<and> \<not> writable s Emergency \<longrightarrow>
      (let r = post_cancel u aid t s
       in fst r = Response 200 True ''Emergency alert cancelled''
                    (AlertData ((al ! k)\<lparr>a_status := Cancelled, cancelledAt := Some t\<rparr>))
        \<and> emitted (snd r) = emitted s
        \<and> emergency (snd r) = emergency s
        \<and> WriteError Emergency \<in> set (errlog (snd r))))
   \<and> (\<not> writable s Users \<longrightarrow>
      (let r = register_save p h i tok s
       in fst r = Response 201 True ''User registered successfully''
                    (UserData tok \<lparr>r_id = i, r_username = pr_username p, r_email = pr_email p,
                       r_profile = \<lparr>p_name = pr_username p, p_avatar = []\<rparr>\<rparr>)
        \<and> emitted (snd r) = emitted s
        \<and> users (snd r) = users s
        \<and> WriteError Users \<in> set (errlog (snd r))))
   \<and> fst (post_group_messages u gid c i t (s\<lparr>writable := w\<rparr>))
       = fst (post_group_messages u gid c i t s)
   \<and> emitted (snd (post_group_messages u gid c i t (s\<lparr>writable := w\<rparr>)))
       = emitted (snd (post_group_messages u gid c i t s))
   \<and> emitted (on_send_group_message sid dopt i t (s\<lparr>writable := w\<rparr>))
       = emitted (on_send_group_message sid dopt i t s)
   \<and> fst (post_emergency_alert u msg loc sev i t te (s\<lparr>writable := w\<rparr>))
       = fst (post_emergency_alert u msg loc sev i t te s)
   \<and> emitted (snd (post_emergency_alert u msg loc sev i t te (s\<lparr>writable := w\<rparr>)))
       = emitted (snd (post_emergency_alert u msg loc sev i t te s))
   \<and> fst (post_messages_send u rcp c i t te (s\<lparr>writable := w\<rparr>))
       = fst (post_messages_send u rcp c i t te s)
   \<and> emitted (snd (post_messages_send u rcp c i t te (s\<lparr>writable := w\<rparr>)))
       = emitted (snd (post_messages_send u rcp c i t te s))
   \<and> fst (post_resolve u aid t (s\<lparr>writable := w\<rparr>)) = fst (post_resolve u aid t s)
   \<and> fst (post_cancel u aid t (s\<lparr>writable := w\<rparr>)) = fst (post_cancel u aid t s)"
proof (intro conjI impI, goal_cases)
  case 1
  then show ?case by (elim conjE) (rule group_write_failure)
next
  case 2
  then show ?case by (rule socket_write_failure)
next
  case 3
  then show ?case by (rule alert_write_failure)
next
  case 4
  then show ?case by (elim conjE) (rule direct_write_failure)
next
  case 5
  then show ?case by (elim conjE) (rule resolve_write_failure)
next
  case 6
  then show ?case by (elim conjE) (rule cancel_write_failure)
next
  case 7
  then show ?case by (rule register_write_failure)
next
  case 8
  show ?case by (simp add: post_group_messages_ignores_write)
next
  case 9
  show ?case by (simp add: post_group_messages_ignores_write)
next
  case 10
  show ?case by (simp add: on_send_group_message_ignores_write)
next
  case 11
  show ?case by (simp add: post_emergency_alert_ignores_write)
next
  case 12
  show ?case by (simp add: post_emergency_alert_ignores_write)
next
  case 13
  show ?case by (simp add: post_messages_send_ignores_write)
next
  case 14
  show ?case by (simp add: post_messages_send_ignores_write)
next
  case 15
  show ?case by (simp add: post_resolve_ignores_write)
next
  case 16
  show ?case by (simp add: post_cancel_ignores_write)
qed

theorem write_failure_reported_as_success_witness:
  "truthy (JStr ''hi'') \<and> truthy (JStr ''u2'')
   \<and> groups ex_state_readonly = Some [ex_group]
   \<and> find (\<lambda>g. g_id g = ''g1'') [ex_group] = Some ex_group
   \<and> u_id ex_user1 \<in> set (members ex_group)
   \<and> emergency ex_state_readonly = Some [ex_alert]
   \<and> findIndex (\<lambda>a. a_id a = ''a1'') [ex_alert] = Some 0
   \<and> a_userId ([ex_alert] ! 0) = u_id ex_user1
   \<and> \<not> writable ex_state_readonly Messages \<and> \<not> writable ex_state_readonly Groups
   \<and> \<not> writable ex_state_readonly Emergency \<and> \<not> writable ex_state_readonly DirectMessages
   \<and> \<not> writable ex_state_readonly Users
   \<and> res_status (fst (post_group_messages ex_user1 ''g1'' (JStr ''hi'') ''m1'' 7 ex_state_readonly)) = 201
   \<and> messages (snd (post_group_messages ex_user1 ''g1'' (JStr ''hi'') ''m1'' 7 ex_state_readonly)) = Some []
   \<and> groups (snd (post_group_messages ex_user1 ''g1'' (JStr ''hi'') ''m1'' 7 ex_state_readonly))
       = Some [ex_group]
   \<and> messages (on_send_group_message ''c1''
        (Some \<lparr>groupId = JStr ''g1'', content = JStr ''hi''\<rparr>) ''m1'' 7 ex_state_readonly) = Some []
   \<and> res_status (fst (post_emergency_alert ex_user1 (JStr ''help'') (JObject []) JUndefined
        ''m1'' 7 8 ex_state_readonly)) = 201
   \<and> emergency (snd (post_emergency_alert ex_user1 (JStr ''help'') (JObject []) JUndefined
        ''m1'' 7 8 ex_state_readonly)) = Some [ex_alert]
   \<and> res_status (fst (post_messages_send ex_user1 (JStr ''u2'') (JStr ''hi'') ''m1'' 7 8 ex_state_readonly))
       = 201
   \<and> directMessages (snd (post_messages_send ex_user1 (JStr ''u2'') (JStr ''hi'') ''m1'' 7 8
        ex_state_readonly)) = Some []
   \<and> res_status (fst (post_resolve ex_user1 ''a1'' 7 ex_state_readonly)) = 200
   \<and> emergency (snd (post_resolve ex_user1 ''a1'' 7 ex_state_readonly)) = Some [ex_alert]
   \<and> res_status (fst (post_cancel ex_user1 ''a1'' 7 ex_state_readonly)) = 200
   \<and> emergency (snd (post_cancel ex_user1 ''a1'' 7 ex_state_readonly)) = Some [ex_alert]
   \<and> res_status (fst (register_save (PendingRegister ''carl'' ''carl@x.org'' ''pw1''
        [ex_user1, ex_user2]) ''h3'' ''m1'' ''t3'' ex_state_readonly)) = 201
   \<and> users (snd (register_save (PendingRegister ''carl'' ''carl@x.org'' ''pw1''
        [ex_user1, ex_user2]) ''h3'' ''m1'' ''t3'' ex_state_readonly)) = Some [ex_user1, ex_user2]"
proof -
  have pre: "truthy (JStr ''hi'') \<and> truthy (JStr ''u2'')
     \<and> groups ex_state_readonly = Some [ex_group]
     \<and> find (\<lambda>g. g_id g = ''g1'') [ex_group] = Some ex_group
     \<and> u_id ex_user1 \<in> set (members ex_group)
     \<and> emergency ex_state_readonly = Some [ex_alert]
     \<and> findIndex (\<lambda>a. a_id a = ''a1'') [ex_alert] = Some 0
     \<and> a_userId ([ex_alert] ! 0) = u_id ex_user1
     \<and> \<not> writable ex_state_readonly Messages \<and> \<not> writable ex_state_readonly Groups
     \<and> \<not> writable ex_state_readonly Emergency \<and> \<not> writable ex_state_readonly DirectMessages
     \<and> \<not> writable ex_state_readonly Users
     \<and> messages ex_state_readonly = Some [] \<and> directMessages ex_state_readonly = Some []
     \<and> users ex_state_readonly = Some [ex_user1, ex_user2]"
    by (simp add: ex_state_readonly_def ex_state_alert_def ex_state_def ex_group_def ex_alert_def
          ex_user1_def)
  show ?thesis
    using pre
      write_failure_reported_as_success
        [where s = ex_state_readonly and c = "JStr ''hi''" and gs = "[ex_group]" and gid = "''g1''"
           and grp = ex_group and u = ex_user1 and i = "''m1''" and t = 7 and te = 8
           and d = "\<lparr>groupId = JStr ''g1'', content = JStr ''hi''\<rparr>" and sid = "''c1''"
           and msg = "JStr ''help''" and loc = "JObject []" and sev = JUndefined
           and rcp = "JStr ''u2''" and al = "[ex_alert]" and aid = "''a1''" and k = 0
           and p = "PendingRegister ''carl'' ''carl@x.org'' ''pw1'' [ex_user1, ex_user2]"
           and h = "''h3''" and tok = "''t3''"]
    by (simp add: Let_def)
qed

section \<open>Overlapping appends\<close>

text \<open>
  C3, at the input where the code leaves it. Two registrations of new users overlap: the
  second is loaded while the first waits for its hash. Both are answered 201, and of two
  appends the users collection keeps one, that of the second request; handled one after
  the other the same two requests leave both users.
\<close>

theorem overlapping_registrations_lose_append:
  "users ex_state = Some [ex_user1, ex_user2]
   \<and> res_status (fst (register_overlapping ex_request_a ex_request_b ex_state)) = 201
   \<and> res_success (fst (register_overlapping ex_request_a ex_request_b ex_state))
   \<and> res_status (fst (snd (register_overlapping ex_request_a ex_request_b ex_state))) = 201
   \<and> res_success (fst (snd (register_overlapping ex_request_a ex_request_b ex_state)))
   \<and> users (snd (snd (register_overlapping ex_request_a ex_request_b ex_state)))
       = Some [ex_user1, ex_user2, user_of_request ex_request_b]
   \<and> users (snd (snd (register_one_by_one ex_request_a ex_request_b ex_state)))
       = Some [ex_user1, ex_user2, user_of_request ex_request_a, user_of_request ex_request_b]"
  by (simp add: register_overlapping_def register_one_by_one_def load_request_def save_request_def
        register_load_def register_save_def readData_def writeData_def put_users_def Let_def
        user_of_request_def ex_state_def ex_user1_def ex_user2_def ex_request_a_def ex_request_b_def)

end
